theory Spec2Isabelle
  imports Main "HOL-Library.Word"
begin

unbundle bit_operations_syntax

section \<open>The BQ25723 register-access driver (src/Sketch/BQ25723.hpp)\<close>

subsection \<open>Machine types\<close>

type_synonym uint8_t = "8 word"
type_synonym uint16_t = "16 word"
type_synonym uint32_t = "32 word"

text \<open>
  Memory reachable through a \<^verbatim>\<open>uint16_t*\<close>: cells of 16 bits, indexed in units of one
  cell. A pointer is \<open>Some p\<close> (cell \<open>p\<close>) or \<open>None\<close> (the null pointer);
  \<^verbatim>\<open>&buffer[i]\<close> is cell \<open>buffer + i\<close>.
\<close>

type_synonym memory = "nat \<Rightarrow> uint16_t"
type_synonym pointer = "nat option"

subsection \<open>The transport (\<^verbatim>\<open>TwoWire\<close>), an external collaborator\<close>

text \<open>
  The driver reaches the bus only through the member functions of the \<^verbatim>\<open>TwoWire\<close> object
  behind \<^verbatim>\<open>_wire\<close>. The class is not part of the repository, so it is a parameter of the
  model: a record of operations over an arbitrary transport state \<open>'t\<close>. Each operation
  returns what the C++ member returns (when the driver uses it) and the new state.
  \<^verbatim>\<open>endTransmission\<close> returns a status byte (0 is success), \<^verbatim>\<open>requestFrom\<close> the number of
  bytes received, \<^verbatim>\<open>read\<close> an \<^verbatim>\<open>int\<close>.
\<close>

record 't TwoWire =
  tw_begin :: "(int \<times> int) option \<Rightarrow> 't \<Rightarrow> 't"
  tw_setClock :: "uint32_t \<Rightarrow> 't \<Rightarrow> 't"
  tw_beginTransmission :: "uint8_t \<Rightarrow> 't \<Rightarrow> 't"
  tw_write :: "uint8_t \<Rightarrow> 't \<Rightarrow> 't"
  tw_endTransmission :: "bool \<Rightarrow> 't \<Rightarrow> uint8_t \<times> 't"
  tw_requestFrom :: "uint8_t \<Rightarrow> uint8_t \<Rightarrow> 't \<Rightarrow> nat \<times> 't"
  tw_read :: "'t \<Rightarrow> int \<times> 't"

text \<open>
  Every call the driver makes on the transport is recorded, with its arguments and its
  result, in a trace kept beside the transport state. An operation of the driver performs
  no transport I/O exactly when it returns the bus as it received it.
\<close>

datatype wire_event =
    Begin "(int \<times> int) option"
  | SetClock uint32_t
  | BeginTransmission uint8_t
  | Write uint8_t
  | EndTransmission bool uint8_t
  | RequestFrom uint8_t uint8_t nat
  | Read int

record 't bus =
  wire :: 't
  trace :: "wire_event list"

definition wire_begin :: "'t TwoWire \<Rightarrow> (int \<times> int) option \<Rightarrow> 't bus \<Rightarrow> 't bus" where
  "wire_begin W pins b =
     \<lparr>wire = tw_begin W pins (wire b), trace = trace b @ [Begin pins]\<rparr>"

definition wire_setClock :: "'t TwoWire \<Rightarrow> uint32_t \<Rightarrow> 't bus \<Rightarrow> 't bus" where
  "wire_setClock W hz b =
     \<lparr>wire = tw_setClock W hz (wire b), trace = trace b @ [SetClock hz]\<rparr>"

definition wire_beginTransmission :: "'t TwoWire \<Rightarrow> uint8_t \<Rightarrow> 't bus \<Rightarrow> 't bus" where
  "wire_beginTransmission W a b =
     \<lparr>wire = tw_beginTransmission W a (wire b), trace = trace b @ [BeginTransmission a]\<rparr>"

definition wire_write :: "'t TwoWire \<Rightarrow> uint8_t \<Rightarrow> 't bus \<Rightarrow> 't bus" where
  "wire_write W x b =
     \<lparr>wire = tw_write W x (wire b), trace = trace b @ [Write x]\<rparr>"

definition wire_endTransmission :: "'t TwoWire \<Rightarrow> bool \<Rightarrow> 't bus \<Rightarrow> uint8_t \<times> 't bus" where
  "wire_endTransmission W sendStop b =
     (case tw_endTransmission W sendStop (wire b) of
        (e, w) \<Rightarrow> (e, \<lparr>wire = w, trace = trace b @ [EndTransmission sendStop e]\<rparr>))"

definition wire_requestFrom :: "'t TwoWire \<Rightarrow> uint8_t \<Rightarrow> uint8_t \<Rightarrow> 't bus \<Rightarrow> nat \<times> 't bus" where
  "wire_requestFrom W a quantity b =
     (case tw_requestFrom W a quantity (wire b) of
        (n, w) \<Rightarrow> (n, \<lparr>wire = w, trace = trace b @ [RequestFrom a quantity n]\<rparr>))"

definition wire_read :: "'t TwoWire \<Rightarrow> 't bus \<Rightarrow> int \<times> 't bus" where
  "wire_read W b =
     (case tw_read W (wire b) of
        (x, w) \<Rightarrow> (x, \<lparr>wire = w, trace = trace b @ [Read x]\<rparr>))"

text \<open>
  What the driver may expect of the transport, as section 6 of the specification describes
  it (\<open>requestBytes\<close> gives the received bytes and their count, \<open>readByte\<close> a byte):
  \<^verbatim>\<open>requestFrom\<close> returns no more than the quantity it was asked for, and after it
  returned \<open>n\<close>, the next \<open>n\<close> calls of \<^verbatim>\<open>read\<close> each return a byte, a value from 0 to 255.
  Nothing is required of \<^verbatim>\<open>read\<close> beyond the bytes announced.
\<close>

fun bytes_available :: "'t TwoWire \<Rightarrow> nat \<Rightarrow> 't \<Rightarrow> bool" where
  "bytes_available W 0 s = True"
| "bytes_available W (Suc n) s =
     (case tw_read W s of (x, s') \<Rightarrow> 0 \<le> x \<and> x \<le> 255 \<and> bytes_available W n s')"

definition wire_contract :: "'t TwoWire \<Rightarrow> bool" where
  "wire_contract W \<longleftrightarrow>
     (\<forall>a quantity s.
        case tw_requestFrom W a quantity s of
          (n, s') \<Rightarrow> n \<le> unat quantity \<and> bytes_available W n s')"

subsection \<open>The driver object\<close>

text \<open>
  The data members of \<^verbatim>\<open>class BQ25723\<close>: \<^verbatim>\<open>_address\<close>, \<^verbatim>\<open>_i2cSpeed\<close>, \<^verbatim>\<open>_initialized\<close>.
  The fourth member, \<^verbatim>\<open>_wire\<close>, points at the transport, which the operations below take
  as the pair of its operations \<open>W\<close> and the bus \<open>b\<close>.
\<close>

record BQ25723 =
  address :: uint8_t
  i2cSpeed :: uint32_t
  initialized :: bool

text \<open>The constructor: the instance starts uninitialized.\<close>

definition BQ25723_new :: "uint8_t \<Rightarrow> uint32_t \<Rightarrow> BQ25723" where
  "BQ25723_new a hz = \<lparr>address = a, i2cSpeed = hz, initialized = False\<rparr>"

definition BQ25723_I2C_ADDR_DEFAULT :: uint8_t where
  "BQ25723_I2C_ADDR_DEFAULT = 0x6B"

definition checkCommunication :: "'t TwoWire \<Rightarrow> BQ25723 \<Rightarrow> 't bus \<Rightarrow> bool \<times> 't bus" where
  "checkCommunication W d b =
     (let b1 = wire_beginTransmission W (address d) b
      in case wire_endTransmission W True b1 of (e, b2) \<Rightarrow> (e = 0, b2))"

definition isConnected :: "'t TwoWire \<Rightarrow> BQ25723 \<Rightarrow> 't bus \<Rightarrow> bool \<times> 't bus" where
  "isConnected W d b = checkCommunication W d b"

text \<open>\<^verbatim>\<open>bool begin(int sdaPin, int sclPin)\<close>; the name \<open>begin\<close> is reserved in Isabelle.\<close>

definition BQ25723_begin ::
  "'t TwoWire \<Rightarrow> int \<Rightarrow> int \<Rightarrow> BQ25723 \<Rightarrow> 't bus \<Rightarrow> bool \<times> BQ25723 \<times> 't bus" where
  "BQ25723_begin W sdaPin sclPin d b =
     (let b1 = (if sdaPin \<ge> 0 \<and> sclPin \<ge> 0 then wire_begin W (Some (sdaPin, sclPin)) b
                else wire_begin W None b);
          b2 = wire_setClock W (i2cSpeed d) b1
      in case isConnected W d b2 of
           (c, b3) \<Rightarrow>
             if \<not> c then (False, d\<lparr>initialized := False\<rparr>, b3)
             else (True, d\<lparr>initialized := True\<rparr>, b3))"

subsection \<open>Register reads and writes\<close>

text \<open>
  \<^verbatim>\<open>*value = (msb << 8) | lsb\<close>: both bytes are promoted to the 32-bit \<^verbatim>\<open>int\<close> of the
  target, combined there, and the result is converted to \<^verbatim>\<open>uint16_t\<close>.
\<close>

definition combine :: "uint8_t \<Rightarrow> uint8_t \<Rightarrow> uint16_t" where
  "combine msb lsb = ucast (push_bit 8 (ucast msb :: 32 word) OR (ucast lsb :: 32 word))"

text \<open>
  \<^verbatim>\<open>bool readRegister(uint8_t regAddr, uint16_t* value)\<close>. The result is the returned
  flag, the memory and the bus. \<^verbatim>\<open>uint8_t lsb = _wire->read()\<close> converts the \<^verbatim>\<open>int\<close> that
  \<^verbatim>\<open>read\<close> returns to a byte.
\<close>

definition readRegister ::
  "'t TwoWire \<Rightarrow> BQ25723 \<Rightarrow> uint8_t \<Rightarrow> pointer \<Rightarrow> memory \<Rightarrow> 't bus \<Rightarrow> bool \<times> memory \<times> 't bus" where
  "readRegister W d regAddr value mem b =
     (if \<not> initialized d \<or> value = None then (False, mem, b)
      else
        let b1 = wire_beginTransmission W (address d) b;
            b2 = wire_write W regAddr b1
        in case wire_endTransmission W False b2 of
             (e, b3) \<Rightarrow>
               if e \<noteq> 0 then (False, mem, b3)
               else
                 case wire_requestFrom W (address d) 2 b3 of
                   (n, b4) \<Rightarrow>
                     if n \<noteq> 2 then (False, mem, b4)
                     else
                       case wire_read W b4 of
                         (x, b5) \<Rightarrow>
                           case wire_read W b5 of
                             (y, b6) \<Rightarrow>
                               let lsb = (word_of_int x :: uint8_t);
                                   msb = (word_of_int y :: uint8_t)
                               in (True, mem(the value := combine msb lsb), b6))"

text \<open>
  \<^verbatim>\<open>uint16_t readRegister(uint8_t regAddr)\<close>, the convenience overload. Its local
  \<^verbatim>\<open>uint16_t value\<close> is not initialized: \<open>uninit\<close> is whatever the cell holds. The callee
  reaches memory only through the pointer it is given, so it runs on the frame that holds
  this one local, at cell 0.
\<close>

definition readRegister_val ::
  "'t TwoWire \<Rightarrow> BQ25723 \<Rightarrow> uint8_t \<Rightarrow> uint16_t \<Rightarrow> 't bus \<Rightarrow> uint16_t \<times> 't bus" where
  "readRegister_val W d regAddr uninit b =
     (case readRegister W d regAddr (Some 0) (\<lambda>_. uninit) b of
        (ok, frame, b') \<Rightarrow> if ok then (frame 0, b') else (0xFFFF, b'))"

text \<open>
  \<^verbatim>\<open>bool writeRegister(uint8_t regAddr, uint16_t value)\<close>. The arguments of the second and
  third \<^verbatim>\<open>write\<close> are computed in \<^verbatim>\<open>int\<close> and converted to a byte by \<^verbatim>\<open>write\<close>.
\<close>

definition writeRegister ::
  "'t TwoWire \<Rightarrow> BQ25723 \<Rightarrow> uint8_t \<Rightarrow> uint16_t \<Rightarrow> 't bus \<Rightarrow> bool \<times> 't bus" where
  "writeRegister W d regAddr value b =
     (if \<not> initialized d then (False, b)
      else
        let b1 = wire_beginTransmission W (address d) b;
            b2 = wire_write W regAddr b1;
            b3 = wire_write W (ucast ((ucast value :: 32 word) AND 0xFF)) b2;
            b4 = wire_write W (ucast (drop_bit 8 (ucast value :: 32 word) AND 0xFF)) b3
        in case wire_endTransmission W True b4 of (e, b5) \<Rightarrow> (e = 0, b5))"

subsection \<open>Bulk read\<close>

text \<open>
  The loop of \<^verbatim>\<open>readMultipleRegisters\<close>:
  \<^verbatim>\<open>for (uint8_t i = 0; i < count; i++)\<close>, with the counters as the bytes they are.
  \<^verbatim>\<open>startAddr + i\<close> is passed as a \<^verbatim>\<open>uint8_t\<close>, so it wraps at 256.
\<close>

function readMultipleRegisters_loop ::
  "'t TwoWire \<Rightarrow> BQ25723 \<Rightarrow> uint8_t \<Rightarrow> nat \<Rightarrow> uint8_t \<Rightarrow> uint8_t \<Rightarrow> uint8_t \<Rightarrow> memory \<Rightarrow> 't bus
     \<Rightarrow> uint8_t \<times> memory \<times> 't bus" where
  "readMultipleRegisters_loop W d startAddr buffer count i successCount mem b =
     (if i < count then
        (case readRegister W d (startAddr + i) (Some (buffer + unat i)) mem b of
           (ok, mem', b') \<Rightarrow>
             if ok then
               readMultipleRegisters_loop W d startAddr buffer count (i + 1) (successCount + 1) mem' b'
             else
               readMultipleRegisters_loop W d startAddr buffer count (i + 1) successCount
                 (mem'(buffer + unat i := 0xFFFF)) b')
      else (successCount, mem, b))"
  by pat_completeness auto
termination
proof (relation "measure (\<lambda>(W, d, startAddr, buffer, count, i, rest). unat count - unat i)")
  fix count i :: uint8_t
  assume "i < count"
  then have less: "unat i < unat count"
    by (simp add: word_less_nat_alt)
  moreover have "unat count < 2 ^ 8"
    using unsigned_less [of count] by simp
  ultimately have "unat i + unat (1 :: uint8_t) < 2 ^ LENGTH(8)"
    by simp
  then have "unat (i + 1) = unat i + unat (1 :: uint8_t)"
    by (simp only: unat_add_lem [THEN iffD1])
  with less have step: "unat count - unat (i + 1) < unat count - unat i"
    by simp
  fix W :: "'t TwoWire" and d :: BQ25723 and startAddr :: uint8_t and buffer :: nat
    and successCount :: uint8_t and mem mem' :: memory and b b' :: "'t bus"
  show "((W, d, startAddr, buffer, count, i + 1, successCount + 1, mem', b'),
      W, d, startAddr, buffer, count, i, successCount, mem, b)
    \<in> measure (\<lambda>(W, d, startAddr, buffer, count, i, rest). unat count - unat i)"
    using step by simp
  show "((W, d, startAddr, buffer, count, i + 1, successCount, mem'(buffer + unat i := 0xFFFF), b'),
      W, d, startAddr, buffer, count, i, successCount, mem, b)
    \<in> measure (\<lambda>(W, d, startAddr, buffer, count, i, rest). unat count - unat i)"
    using step by simp
qed simp

definition readMultipleRegisters ::
  "'t TwoWire \<Rightarrow> BQ25723 \<Rightarrow> uint8_t \<Rightarrow> pointer \<Rightarrow> uint8_t \<Rightarrow> memory \<Rightarrow> 't bus
     \<Rightarrow> uint8_t \<times> memory \<times> 't bus" where
  "readMultipleRegisters W d startAddr buffer count mem b =
     (if \<not> initialized d \<or> buffer = None \<or> count = 0 then (0, mem, b)
      else readMultipleRegisters_loop W d startAddr (the buffer) count 0 0 mem b)"

subsection \<open>Address management\<close>

definition getAddress :: "BQ25723 \<Rightarrow> uint8_t" where
  "getAddress d = address d"

definition setAddress :: "uint8_t \<Rightarrow> BQ25723 \<Rightarrow> BQ25723" where
  "setAddress newAddress d = d\<lparr>address := newAddress, initialized := False\<rparr>"

definition isInitialized :: "BQ25723 \<Rightarrow> bool" where
  "isInitialized d = initialized d"

subsection \<open>Register names\<close>

text \<open>The register address macros (\<^verbatim>\<open>#define BQ25723_REG_...\<close>).\<close>

definition BQ25723_REG_CHARGE_OPTION_0 :: uint8_t where
  "BQ25723_REG_CHARGE_OPTION_0 = 0x00"

definition BQ25723_REG_CHARGE_CURRENT :: uint8_t where
  "BQ25723_REG_CHARGE_CURRENT = 0x02"

definition BQ25723_REG_CHARGE_VOLTAGE :: uint8_t where
  "BQ25723_REG_CHARGE_VOLTAGE = 0x04"

definition BQ25723_REG_OTG_VOLTAGE :: uint8_t where
  "BQ25723_REG_OTG_VOLTAGE = 0x06"

definition BQ25723_REG_OTG_CURRENT :: uint8_t where
  "BQ25723_REG_OTG_CURRENT = 0x08"

definition BQ25723_REG_INPUT_VOLTAGE :: uint8_t where
  "BQ25723_REG_INPUT_VOLTAGE = 0x0A"

definition BQ25723_REG_VSYS_MIN :: uint8_t where
  "BQ25723_REG_VSYS_MIN = 0x0C"

definition BQ25723_REG_IIN_HOST :: uint8_t where
  "BQ25723_REG_IIN_HOST = 0x0E"

definition BQ25723_REG_CHARGER_STATUS :: uint8_t where
  "BQ25723_REG_CHARGER_STATUS = 0x20"

definition BQ25723_REG_PROCHOT_STATUS :: uint8_t where
  "BQ25723_REG_PROCHOT_STATUS = 0x22"

definition BQ25723_REG_IIN_DPM :: uint8_t where
  "BQ25723_REG_IIN_DPM = 0x24"

definition BQ25723_REG_ADCVBUS_PSYS :: uint8_t where
  "BQ25723_REG_ADCVBUS_PSYS = 0x26"

definition BQ25723_REG_ADCIBAT :: uint8_t where
  "BQ25723_REG_ADCIBAT = 0x28"

definition BQ25723_REG_ADCIINCMPIN :: uint8_t where
  "BQ25723_REG_ADCIINCMPIN = 0x2A"

definition BQ25723_REG_ADCVSYSVBAT :: uint8_t where
  "BQ25723_REG_ADCVSYSVBAT = 0x2C"

definition BQ25723_REG_MANUFACTURER_ID :: uint8_t where
  "BQ25723_REG_MANUFACTURER_ID = 0x2E"

definition BQ25723_REG_DEVICE_ID :: uint8_t where
  "BQ25723_REG_DEVICE_ID = 0x2F"

definition BQ25723_REG_CHARGE_OPTION_1 :: uint8_t where
  "BQ25723_REG_CHARGE_OPTION_1 = 0x30"

definition BQ25723_REG_CHARGE_OPTION_2 :: uint8_t where
  "BQ25723_REG_CHARGE_OPTION_2 = 0x32"

definition BQ25723_REG_CHARGE_OPTION_3 :: uint8_t where
  "BQ25723_REG_CHARGE_OPTION_3 = 0x34"

definition BQ25723_REG_PROCHOT_OPTION_0 :: uint8_t where
  "BQ25723_REG_PROCHOT_OPTION_0 = 0x36"

definition BQ25723_REG_PROCHOT_OPTION_1 :: uint8_t where
  "BQ25723_REG_PROCHOT_OPTION_1 = 0x38"

definition BQ25723_REG_ADC_OPTION :: uint8_t where
  "BQ25723_REG_ADC_OPTION = 0x3A"

definition BQ25723_REG_CHARGE_OPTION_4 :: uint8_t where
  "BQ25723_REG_CHARGE_OPTION_4 = 0x3C"

definition BQ25723_REG_VMIN_ACT_PROT :: uint8_t where
  "BQ25723_REG_VMIN_ACT_PROT = 0x3E"

lemmas BQ25723_REG_defs =
  BQ25723_REG_CHARGE_OPTION_0_def
  BQ25723_REG_CHARGE_CURRENT_def
  BQ25723_REG_CHARGE_VOLTAGE_def
  BQ25723_REG_OTG_VOLTAGE_def
  BQ25723_REG_OTG_CURRENT_def
  BQ25723_REG_INPUT_VOLTAGE_def
  BQ25723_REG_VSYS_MIN_def
  BQ25723_REG_IIN_HOST_def
  BQ25723_REG_CHARGER_STATUS_def
  BQ25723_REG_PROCHOT_STATUS_def
  BQ25723_REG_IIN_DPM_def
  BQ25723_REG_ADCVBUS_PSYS_def
  BQ25723_REG_ADCIBAT_def
  BQ25723_REG_ADCIINCMPIN_def
  BQ25723_REG_ADCVSYSVBAT_def
  BQ25723_REG_MANUFACTURER_ID_def
  BQ25723_REG_DEVICE_ID_def
  BQ25723_REG_CHARGE_OPTION_1_def
  BQ25723_REG_CHARGE_OPTION_2_def
  BQ25723_REG_CHARGE_OPTION_3_def
  BQ25723_REG_PROCHOT_OPTION_0_def
  BQ25723_REG_PROCHOT_OPTION_1_def
  BQ25723_REG_ADC_OPTION_def
  BQ25723_REG_CHARGE_OPTION_4_def
  BQ25723_REG_VMIN_ACT_PROT_def

text \<open>
  \<^verbatim>\<open>static const char* getRegisterName(uint8_t regAddr)\<close>: the \<^verbatim>\<open>switch\<close>, case by case
  in the order of the source, the \<^verbatim>\<open>default\<close> last.
\<close>

definition getRegisterName :: "uint8_t \<Rightarrow> string" where
  "getRegisterName regAddr =
     (if regAddr = BQ25723_REG_CHARGE_OPTION_0 then ''CHARGE_OPTION_0''
      else if regAddr = BQ25723_REG_CHARGE_CURRENT then ''CHARGE_CURRENT''
      else if regAddr = BQ25723_REG_CHARGE_VOLTAGE then ''CHARGE_VOLTAGE''
      else if regAddr = BQ25723_REG_OTG_VOLTAGE then ''OTG_VOLTAGE''
      else if regAddr = BQ25723_REG_OTG_CURRENT then ''OTG_CURRENT''
      else if regAddr = BQ25723_REG_INPUT_VOLTAGE then ''INPUT_VOLTAGE''
      else if regAddr = BQ25723_REG_VSYS_MIN then ''VSYS_MIN''
      else if regAddr = BQ25723_REG_IIN_HOST then ''IIN_HOST''
      else if regAddr = BQ25723_REG_CHARGER_STATUS then ''CHARGER_STATUS''
      else if regAddr = BQ25723_REG_PROCHOT_STATUS then ''PROCHOT_STATUS''
      else if regAddr = BQ25723_REG_IIN_DPM then ''IIN_DPM''
      else if regAddr = BQ25723_REG_ADCVBUS_PSYS then ''ADCVBUS_PSYS''
      else if regAddr = BQ25723_REG_ADCIBAT then ''ADCIBAT''
      else if regAddr = BQ25723_REG_ADCIINCMPIN then ''ADCIINCMPIN''
      else if regAddr = BQ25723_REG_ADCVSYSVBAT then ''ADCVSYSVBAT''
      else if regAddr = BQ25723_REG_MANUFACTURER_ID then ''MANUFACTURER_ID''
      else if regAddr = BQ25723_REG_DEVICE_ID then ''DEVICE_ID''
      else if regAddr = BQ25723_REG_CHARGE_OPTION_1 then ''CHARGE_OPTION_1''
      else if regAddr = BQ25723_REG_CHARGE_OPTION_2 then ''CHARGE_OPTION_2''
      else if regAddr = BQ25723_REG_CHARGE_OPTION_3 then ''CHARGE_OPTION_3''
      else if regAddr = BQ25723_REG_PROCHOT_OPTION_0 then ''PROCHOT_OPTION_0''
      else if regAddr = BQ25723_REG_PROCHOT_OPTION_1 then ''PROCHOT_OPTION_1''
      else if regAddr = BQ25723_REG_ADC_OPTION then ''ADC_OPTION''
      else if regAddr = BQ25723_REG_CHARGE_OPTION_4 then ''CHARGE_OPTION_4''
      else if regAddr = BQ25723_REG_VMIN_ACT_PROT then ''VMIN_ACT_PROT''
      else ''UNKNOWN'')"

text \<open>
  The macros as a table: every register macro with the name it carries after the prefix
  \<^verbatim>\<open>BQ25723_REG_\<close>, in the order of the source.
\<close>

definition register_macros :: "(uint8_t \<times> string) list" where
  "register_macros =
     [(BQ25723_REG_CHARGE_OPTION_0, ''CHARGE_OPTION_0''),
      (BQ25723_REG_CHARGE_CURRENT, ''CHARGE_CURRENT''),
      (BQ25723_REG_CHARGE_VOLTAGE, ''CHARGE_VOLTAGE''),
      (BQ25723_REG_OTG_VOLTAGE, ''OTG_VOLTAGE''),
      (BQ25723_REG_OTG_CURRENT, ''OTG_CURRENT''),
      (BQ25723_REG_INPUT_VOLTAGE, ''INPUT_VOLTAGE''),
      (BQ25723_REG_VSYS_MIN, ''VSYS_MIN''),
      (BQ25723_REG_IIN_HOST, ''IIN_HOST''),
      (BQ25723_REG_CHARGER_STATUS, ''CHARGER_STATUS''),
      (BQ25723_REG_PROCHOT_STATUS, ''PROCHOT_STATUS''),
      (BQ25723_REG_IIN_DPM, ''IIN_DPM''),
      (BQ25723_REG_ADCVBUS_PSYS, ''ADCVBUS_PSYS''),
      (BQ25723_REG_ADCIBAT, ''ADCIBAT''),
      (BQ25723_REG_ADCIINCMPIN, ''ADCIINCMPIN''),
      (BQ25723_REG_ADCVSYSVBAT, ''ADCVSYSVBAT''),
      (BQ25723_REG_MANUFACTURER_ID, ''MANUFACTURER_ID''),
      (BQ25723_REG_DEVICE_ID, ''DEVICE_ID''),
      (BQ25723_REG_CHARGE_OPTION_1, ''CHARGE_OPTION_1''),
      (BQ25723_REG_CHARGE_OPTION_2, ''CHARGE_OPTION_2''),
      (BQ25723_REG_CHARGE_OPTION_3, ''CHARGE_OPTION_3''),
      (BQ25723_REG_PROCHOT_OPTION_0, ''PROCHOT_OPTION_0''),
      (BQ25723_REG_PROCHOT_OPTION_1, ''PROCHOT_OPTION_1''),
      (BQ25723_REG_ADC_OPTION, ''ADC_OPTION''),
      (BQ25723_REG_CHARGE_OPTION_4, ''CHARGE_OPTION_4''),
      (BQ25723_REG_VMIN_ACT_PROT, ''VMIN_ACT_PROT'')]"

text \<open>
  The register catalog as the specification lists it (section 6, 25 offsets): the
  reference the lookup is compared with.
\<close>

definition register_catalog :: "uint8_t list" where
  "register_catalog =
     [0x00, 0x02, 0x04, 0x06, 0x08, 0x0A, 0x0C, 0x0E, 0x20, 0x22, 0x24, 0x26, 0x28, 0x2A, 0x2C, 0x2E, 0x2F, 0x30, 0x32, 0x34, 0x36, 0x38, 0x3A, 0x3C, 0x3E]"

subsection \<open>Independent single reads\<close>

text \<open>
  The outcome of one single-register read, as a caller sees it: the value read, or \<open>None\<close>
  when \<open>readRegister\<close> returns false; and the bus afterwards. The read runs on a frame of
  its own.
\<close>

definition mem0 :: memory where
  "mem0 = (\<lambda>_. 0)"

definition single_read :: "'t TwoWire \<Rightarrow> BQ25723 \<Rightarrow> uint8_t \<Rightarrow> 't bus \<Rightarrow> uint16_t option \<times> 't bus" where
  "single_read W d regAddr b =
     (case readRegister W d regAddr (Some 0) mem0 b of
        (ok, frame, b') \<Rightarrow> (if ok then Some (frame 0) else None, b'))"

text \<open>
  The reference for the bulk read, in the words of the specification: one independent
  single-register read for each index \<open>k\<close> of a list, at address \<open>startAddr + k\<close>, each
  on the bus the previous one left, whatever the previous one returned.
\<close>

fun independent_reads ::
  "'t TwoWire \<Rightarrow> BQ25723 \<Rightarrow> uint8_t \<Rightarrow> nat list \<Rightarrow> 't bus \<Rightarrow> uint16_t option list \<times> 't bus" where
  "independent_reads W d startAddr [] b = ([], b)"
| "independent_reads W d startAddr (k # ks) b =
     (case single_read W d (startAddr + of_nat k) b of
        (r, b1) \<Rightarrow>
          (case independent_reads W d startAddr ks b1 of
             (rs, b2) \<Rightarrow> (r # rs, b2)))"

subsection \<open>A fake transport\<close>

text \<open>
  The transport the testable properties of the specification speak of: it echoes the data
  bytes it was last written, and it fails the address phase of the registers in \<open>fails\<close>.
  A transaction collects the bytes written in \<open>fw_tx\<close>; \<^verbatim>\<open>endTransmission\<close> answers 2
  (address not acknowledged) when the first byte, the register address, is in \<open>fails\<close>, and
  otherwise 0, keeping the bytes after the first in \<open>fw_held\<close> when there are any;
  \<^verbatim>\<open>requestFrom\<close> makes as many of the kept bytes available as were requested;
  \<^verbatim>\<open>read\<close> takes the next available byte, or returns -1 when there is none.
\<close>

record fake_wire_state =
  fw_tx :: "uint8_t list"
  fw_held :: "uint8_t list"
  fw_rx :: "uint8_t list"

definition fake_wire :: "uint8_t list \<Rightarrow> fake_wire_state TwoWire" where
  "fake_wire fails =
     \<lparr>tw_begin = (\<lambda>pins s. s),
      tw_setClock = (\<lambda>hz s. s),
      tw_beginTransmission = (\<lambda>a s. s\<lparr>fw_tx := []\<rparr>),
      tw_write = (\<lambda>x s. s\<lparr>fw_tx := fw_tx s @ [x]\<rparr>),
      tw_endTransmission = (\<lambda>sendStop s.
        case fw_tx s of
          [] \<Rightarrow> (0, s)
        | r # payload \<Rightarrow>
            if r \<in> set fails then (2, s\<lparr>fw_tx := []\<rparr>)
            else (0, s\<lparr>fw_tx := [],
                       fw_held := (if payload = [] then fw_held s else payload)\<rparr>)),
      tw_requestFrom = (\<lambda>a quantity s.
        (length (take (unat quantity) (fw_held s)),
         s\<lparr>fw_rx := take (unat quantity) (fw_held s)\<rparr>)),
      tw_read = (\<lambda>s.
        case fw_rx s of
          [] \<Rightarrow> (- 1, s)
        | x # xs \<Rightarrow> (uint x, s\<lparr>fw_rx := xs\<rparr>))\<rparr>"

definition fake_bus :: "uint8_t list \<Rightarrow> fake_wire_state bus" where
  "fake_bus held = \<lparr>wire = \<lparr>fw_tx = [], fw_held = held, fw_rx = []\<rparr>, trace = []\<rparr>"

text \<open>A driver at the default address, as the constructor makes it, and one that is ready.\<close>

definition fresh_driver :: BQ25723 where
  "fresh_driver = BQ25723_new BQ25723_I2C_ADDR_DEFAULT 100000"

definition ready_driver :: BQ25723 where
  "ready_driver = fresh_driver\<lparr>initialized := True\<rparr>"

section \<open>Auxiliary facts\<close>

declare readMultipleRegisters_loop.simps [simp del]

subsection \<open>Bytes and 16-bit values\<close>

lemma byte_mask: "(0xFF :: 'a::len word) = mask 8"
  by (simp add: mask_eq_exp_minus_1)

lemma combine_eq: "combine msb lsb = push_bit 8 (ucast msb) OR ucast lsb"
  unfolding combine_def
  by (rule bit_word_eqI) (auto simp add: bit_simps)

lemma write_low_byte: "ucast ((ucast (v :: uint16_t) :: 32 word) AND 0xFF) = (ucast (v AND 0xFF) :: uint8_t)"
  unfolding byte_mask
  by (rule bit_word_eqI) (auto simp add: bit_simps)

lemma write_high_byte:
  "ucast (drop_bit 8 (ucast (v :: uint16_t) :: 32 word) AND 0xFF) = (ucast (drop_bit 8 v AND 0xFF) :: uint8_t)"
  unfolding byte_mask
  by (rule bit_word_eqI) (auto simp add: bit_simps)

lemma low_byte_mask: "(ucast ((v :: uint16_t) AND 0xFF) :: uint8_t) = ucast v"
  unfolding byte_mask
  by (rule bit_word_eqI) (auto simp add: bit_simps)

lemma high_byte_mask: "(ucast (drop_bit 8 (v :: uint16_t) AND 0xFF) :: uint8_t) = ucast (drop_bit 8 v)"
  unfolding byte_mask
  by (rule bit_word_eqI) (auto simp add: bit_simps)

lemma combine_bytes: "combine (ucast (drop_bit 8 v)) (ucast v) = v"
  unfolding combine_def
  by (rule bit_word_eqI) (auto simp add: bit_simps)

lemma combine_low: "(ucast (combine msb lsb) :: uint8_t) = lsb"
  unfolding combine_def
  by (rule bit_word_eqI) (auto simp add: bit_simps)

lemma combine_high: "(ucast (drop_bit 8 (combine msb lsb)) :: uint8_t) = msb"
  unfolding combine_def
  by (rule bit_word_eqI) (auto simp add: bit_simps dest: bit_imp_le_length)

lemma combine_sentinel: "combine msb lsb = 0xFFFF \<longleftrightarrow> lsb = 0xFF \<and> msb = 0xFF"
proof
  assume a: "combine msb lsb = 0xFFFF"
  have "lsb = ucast (combine msb lsb)" by (simp add: combine_low)
  moreover have "msb = ucast (drop_bit 8 (combine msb lsb))" by (simp add: combine_high)
  ultimately show "lsb = 0xFF \<and> msb = 0xFF" unfolding a by simp
next
  assume "lsb = 0xFF \<and> msb = 0xFF"
  then show "combine msb lsb = 0xFFFF" by (simp add: combine_def)
qed

subsection \<open>One read, seen from outside\<close>

lemmas wire_defs =
  wire_beginTransmission_def wire_write_def wire_endTransmission_def
  wire_requestFrom_def wire_read_def

lemmas fake_defs =
  fake_wire_def fake_bus_def ready_driver_def fresh_driver_def BQ25723_new_def
  BQ25723_I2C_ADDR_DEFAULT_def mem0_def

text \<open>
  The ready driver of the examples is what \<open>begin\<close> makes of the fresh one on the fake
  transport, whose probe is acknowledged.
\<close>

lemma begin_ready:
  "BQ25723_begin (fake_wire fails) 21 22 fresh_driver (fake_bus held) =
     (True, ready_driver,
      \<lparr>wire = \<lparr>fw_tx = [], fw_held = held, fw_rx = []\<rparr>,
       trace = [Begin (Some (21, 22)), SetClock 100000, BeginTransmission 0x6B,
                EndTransmission True 0]\<rparr>)"
  by (simp add: BQ25723_begin_def isConnected_def checkCommunication_def wire_begin_def
      wire_setClock_def wire_defs fake_defs Let_def)

lemma readRegister_single:
  "readRegister W d regAddr (Some p) mem b =
     (case single_read W d regAddr b of
        (None, b') \<Rightarrow> (False, mem, b')
      | (Some v, b') \<Rightarrow> (True, mem(p := v), b'))"
  by (simp add: single_read_def readRegister_def Let_def split: prod.splits)

lemma readRegister_val_single:
  "readRegister_val W d regAddr uninit b =
     (case single_read W d regAddr b of
        (None, b') \<Rightarrow> (0xFFFF, b')
      | (Some v, b') \<Rightarrow> (v, b'))"
  by (simp add: readRegister_val_def readRegister_single split: prod.splits option.splits)

lemma single_read_cases:
  "single_read W d regAddr b = (r, b') \<Longrightarrow>
     (\<not> initialized d \<and> b' = b \<and> r = None)
     \<or> (initialized d \<and> (\<exists>e. e \<noteq> 0 \<and> r = None \<and> trace b' = trace b @
           [BeginTransmission (address d), Write regAddr, EndTransmission False e]))
     \<or> (initialized d \<and> (\<exists>n. n \<noteq> 2 \<and> r = None \<and> trace b' = trace b @
           [BeginTransmission (address d), Write regAddr, EndTransmission False 0,
            RequestFrom (address d) 2 n]))
     \<or> (initialized d \<and> (\<exists>x y. r = Some (combine (word_of_int y) (word_of_int x)) \<and>
           trace b' = trace b @
           [BeginTransmission (address d), Write regAddr, EndTransmission False 0,
            RequestFrom (address d) 2 2, Read x, Read y]))"
  by (auto simp add: single_read_def readRegister_def Let_def wire_defs
      split: prod.splits if_splits)

subsection \<open>The contract of the transport\<close>

lemma wire_contractD:
  "wire_contract W \<Longrightarrow> tw_requestFrom W a quantity s = (n, s') \<Longrightarrow>
     n \<le> unat quantity \<and> bytes_available W n s'"
  unfolding wire_contract_def
  by (drule spec [of _ a], drule spec [of _ quantity], drule spec [of _ s]) simp

lemma two_bytes_available:
  "bytes_available W 2 s \<Longrightarrow> tw_read W s = (x, s1) \<Longrightarrow> tw_read W s1 = (y, s2) \<Longrightarrow>
     0 \<le> x \<and> x \<le> 255 \<and> 0 \<le> y \<and> y \<le> 255"
  by (simp add: numeral_2_eq_2)

lemma byte_of_int: "0 \<le> x \<Longrightarrow> x \<le> 255 \<Longrightarrow> uint (word_of_int x :: uint8_t) = x"
  by (simp add: uint_word_of_int take_bit_int_eq_self)

lemma fake_bytes_available:
  "bytes_available (fake_wire fails) (length (fw_rx s)) s"
proof (induction "fw_rx s" arbitrary: s)
  case Nil
  then show ?case by simp
next
  case (Cons x xs)
  from Cons.hyps(2) [symmetric] have rx: "fw_rx s = x # xs" .
  have "uint x < 2 ^ 8"
    using uint_lt2p [of x] by simp
  moreover have "bytes_available (fake_wire fails) (length xs) (s\<lparr>fw_rx := xs\<rparr>)"
    using Cons.hyps(1) [of "s\<lparr>fw_rx := xs\<rparr>"] by simp
  ultimately show ?case
    by (simp add: rx fake_wire_def)
qed

lemma fake_wire_contract: "wire_contract (fake_wire fails)"
proof -
  have "bytes_available (fake_wire fails) (length (take (unat q) (fw_held s)))
      (s\<lparr>fw_rx := take (unat q) (fw_held s)\<rparr>)" for q :: uint8_t and s
    using fake_bytes_available [of fails "s\<lparr>fw_rx := take (unat q) (fw_held s)\<rparr>"] by simp
  then show ?thesis
    by (simp add: wire_contract_def fake_wire_def)
qed

lemma single_read_contract:
  "wire_contract W \<Longrightarrow> single_read W d regAddr b = (r, b') \<Longrightarrow>
     (\<not> initialized d \<and> b' = b \<and> r = None)
     \<or> (initialized d \<and> (\<exists>e. e \<noteq> 0 \<and> r = None \<and> trace b' = trace b @
           [BeginTransmission (address d), Write regAddr, EndTransmission False e]))
     \<or> (initialized d \<and> (\<exists>n. n < 2 \<and> r = None \<and> trace b' = trace b @
           [BeginTransmission (address d), Write regAddr, EndTransmission False 0,
            RequestFrom (address d) 2 n]))
     \<or> (initialized d \<and> (\<exists>lo hi. r = Some (combine hi lo) \<and>
           trace b' = trace b @
           [BeginTransmission (address d), Write regAddr, EndTransmission False 0,
            RequestFrom (address d) 2 2, Read (uint lo), Read (uint hi)]))"
proof -
  assume c: "wire_contract W" and s: "single_read W d regAddr b = (r, b')"
  show ?thesis
  proof (cases "initialized d")
    case False
    with s show ?thesis
      by (simp add: single_read_def readRegister_def)
  next
    case True
    define w2 where "w2 = tw_write W regAddr (tw_beginTransmission W (address d) (wire b))"
    obtain e w3 where e: "tw_endTransmission W False w2 = (e, w3)"
      by (cases "tw_endTransmission W False w2")
    obtain n w4 where n: "tw_requestFrom W (address d) 2 w3 = (n, w4)"
      by (cases "tw_requestFrom W (address d) 2 w3")
    obtain x w5 where x: "tw_read W w4 = (x, w5)"
      by (cases "tw_read W w4")
    obtain y w6 where y: "tw_read W w5 = (y, w6)"
      by (cases "tw_read W w5")
    from wire_contractD [OF c n] have le: "n \<le> 2" and av: "bytes_available W n w4"
      by simp_all
    show ?thesis
    proof (cases "e = 0")
      case False
      with s True e show ?thesis
        by (auto simp add: single_read_def readRegister_def Let_def wire_defs w2_def)
    next
      case e0: True
      show ?thesis
      proof (cases "n = 2")
        case False
        with le have "n < 2" by simp
        with s True e e0 n False show ?thesis
          by (auto simp add: single_read_def readRegister_def Let_def wire_defs w2_def)
      next
        case n2: True
        from two_bytes_available [OF av [unfolded n2] x y]
        have xy: "uint (word_of_int x :: uint8_t) = x" "uint (word_of_int y :: uint8_t) = y"
          by (simp_all add: byte_of_int)
        from s True e e0 n n2 x y
        have "r = Some (combine (word_of_int y) (word_of_int x))"
          and "trace b' = trace b @
           [BeginTransmission (address d), Write regAddr, EndTransmission False 0,
            RequestFrom (address d) 2 2, Read x, Read y]"
          by (auto simp add: single_read_def readRegister_def Let_def wire_defs w2_def)
        with xy have "\<exists>lo hi. r = Some (combine hi lo) \<and>
           trace b' = trace b @
           [BeginTransmission (address d), Write regAddr, EndTransmission False 0,
            RequestFrom (address d) 2 2, Read (uint lo), Read (uint hi)]"
          by (intro exI [of _ "word_of_int x"] exI [of _ "word_of_int y"]) simp
        with True show ?thesis
          by blast
      qed
    qed
  qed
qed

subsection \<open>The loop of the bulk read\<close>

lemma unat_inc: "unat (i + 1) = Suc (unat i)" if "i < count" for i count :: uint8_t
proof -
  have "unat i < unat count"
    using that by (simp add: word_less_nat_alt)
  moreover have "unat count < 2 ^ 8"
    using unsigned_less [of count] by simp
  ultimately have "unat i + unat (1 :: uint8_t) < 2 ^ LENGTH(8)"
    by simp
  then have "unat (i + 1) = unat i + unat (1 :: uint8_t)"
    by (simp only: unat_add_lem [THEN iffD1])
  then show ?thesis by simp
qed

lemma loop_done:
  "\<not> i < count \<Longrightarrow>
     readMultipleRegisters_loop W d s buf count i sc mem b = (sc, mem, b)"
  by (subst readMultipleRegisters_loop.simps) simp

lemma loop_step:
  "i < count \<Longrightarrow> single_read W d (s + i) b = (r, b1) \<Longrightarrow>
     readMultipleRegisters_loop W d s buf count i sc mem b =
       (case r of
          None \<Rightarrow> readMultipleRegisters_loop W d s buf count (i + 1) sc
                    (mem(buf + unat i := 0xFFFF)) b1
        | Some v \<Rightarrow> readMultipleRegisters_loop W d s buf count (i + 1) (sc + 1)
                    (mem(buf + unat i := v)) b1)"
  by (subst readMultipleRegisters_loop.simps) (simp add: readRegister_single split: option.splits)

lemma loop_reads:
  "unat count - unat i = m \<Longrightarrow> i \<le> count \<Longrightarrow> sc \<le> i \<Longrightarrow>
   readMultipleRegisters_loop W d s buf count i sc mem b = (n, mem', b') \<Longrightarrow>
   independent_reads W d s [unat i..<unat count] b = (rs, b'') \<Longrightarrow>
     b' = b'' \<and> length rs = unat count - unat i
     \<and> unat n = unat sc + length (filter (\<lambda>r. r \<noteq> None) rs)
     \<and> (\<forall>k. unat i \<le> k \<and> k < unat count \<longrightarrow>
           mem' (buf + k) = (case rs ! (k - unat i) of None \<Rightarrow> 0xFFFF | Some v \<Rightarrow> v))
     \<and> (\<forall>a. a < buf + unat i \<or> buf + unat count \<le> a \<longrightarrow> mem' a = mem a)"
proof (induction m arbitrary: i sc mem b n mem' b' rs b'')
  case 0
  from 0(1,2) have fin: "\<not> i < count" and eq: "unat i = unat count"
    by (simp_all add: word_less_nat_alt word_le_nat_alt)
  from 0(4) fin have r: "n = sc" "mem' = mem" "b' = b"
    by (simp_all add: loop_done)
  from 0(5) eq have s: "rs = []" "b'' = b"
    by simp_all
  show ?case
    unfolding r s
  proof (intro conjI allI impI)
    fix k
    assume "unat i \<le> k \<and> k < unat count"
    with eq have False
      by linarith
    then show "mem (buf + k) = (case [] ! (k - unat i) of None \<Rightarrow> 0xFFFF | Some v \<Rightarrow> v)" ..
  qed (simp_all add: eq)
next
  case (Suc m)
  from Suc.prems(1) have lt: "i < count"
    by (simp add: word_less_nat_alt)
  note succ = unat_inc [OF lt]
  have sclt: "sc < count"
    using Suc.prems(3) lt by (rule le_less_trans)
  obtain r b1 where sr: "single_read W d (s + i) b = (r, b1)"
    by (cases "single_read W d (s + i) b")
  have upt: "[unat i..<unat count] = unat i # [unat (i + 1)..<unat count]"
    using lt succ by (simp add: upt_conv_Cons word_less_nat_alt)
  obtain rs' where rs': "independent_reads W d s [unat (i + 1)..<unat count] b1 = (rs', b'')"
    and rs: "rs = r # rs'"
    using Suc.prems(5) sr unfolding upt by (auto split: prod.splits)
  have m: "unat count - unat (i + 1) = m"
    using Suc.prems(1) succ by simp
  have le: "i + 1 \<le> count"
    using lt by (rule inc_le)
  have ilt: "unat i < unat count"
    using lt by (simp add: word_less_nat_alt)
  define mem1 where "mem1 = mem(buf + unat i := (case r of None \<Rightarrow> 0xFFFF | Some v \<Rightarrow> v))"
  define sc1 where "sc1 = (case r of None \<Rightarrow> sc | Some v \<Rightarrow> sc + 1)"
  have loop: "readMultipleRegisters_loop W d s buf count (i + 1) sc1 mem1 b1 = (n, mem', b')"
    using Suc.prems(4) loop_step [OF lt sr] by (simp add: mem1_def sc1_def split: option.splits)
  have sc1: "unat sc1 = unat sc + length (filter (\<lambda>r. r \<noteq> None) [r])"
    using unat_inc [OF sclt] by (simp add: sc1_def split: option.splits)
  have sc: "sc1 \<le> i + 1"
    using Suc.prems(3) succ sc1 by (simp add: word_le_nat_alt split: option.splits)
  from Suc.IH [OF m le sc loop rs']
  have A: "b' = b''"
    and B: "length rs' = unat count - unat (i + 1)"
    and C: "unat n = unat sc1 + length (filter (\<lambda>r. r \<noteq> None) rs')"
    and D: "\<And>k. unat (i + 1) \<le> k \<Longrightarrow> k < unat count \<Longrightarrow>
            mem' (buf + k) = (case rs' ! (k - unat (i + 1)) of None \<Rightarrow> 0xFFFF | Some v \<Rightarrow> v)"
    and E: "\<And>a. a < buf + unat (i + 1) \<or> buf + unat count \<le> a \<Longrightarrow> mem' a = mem1 a"
    by blast+
  have len: "length rs = unat count - unat i"
    using B rs succ ilt by simp
  have cnt: "unat n = unat sc + length (filter (\<lambda>r. r \<noteq> None) rs)"
    using C sc1 rs by simp
  have slot: "mem' (buf + k) = (case rs ! (k - unat i) of None \<Rightarrow> 0xFFFF | Some v \<Rightarrow> v)"
    if k: "unat i \<le> k" "k < unat count" for k
  proof (cases "k = unat i")
    case True
    have "mem' (buf + unat i) = mem1 (buf + unat i)"
      by (rule E) (simp add: succ)
    then show ?thesis
      by (simp add: True rs mem1_def)
  next
    case False
    with k have k1: "unat (i + 1) \<le> k"
      by (simp add: succ)
    then have "k - unat i = Suc (k - unat (i + 1))"
      by (simp add: succ)
    with D [OF k1 k(2)] show ?thesis
      by (simp add: rs)
  qed
  have rest: "mem' a = mem a" if a: "a < buf + unat i \<or> buf + unat count \<le> a" for a
  proof -
    from a ilt have "a < buf + unat (i + 1) \<or> buf + unat count \<le> a" and ne: "a \<noteq> buf + unat i"
      by (auto simp add: succ)
    then have "mem' a = mem1 a"
      by (simp add: E)
    with ne show ?thesis
      by (simp add: mem1_def)
  qed
  from A len cnt slot rest show ?case
    by blast
qed

section \<open>Properties\<close>

subsection \<open>Gating on the initialized flag\<close>

text \<open>
  C1. On an instance whose initialized flag is false, every register operation fails and
  performs no transport I/O: the pointer form of \<open>readRegister\<close> returns false, the
  convenience form returns the sentinel 0xFFFF, \<open>writeRegister\<close> returns false and
  \<open>readMultipleRegisters\<close> returns the count 0. Each returns the bus it was given, transport
  state and trace of calls alike, and the memory untouched. This holds for every transport,
  address, pointer, value, buffer and count.
\<close>

theorem uninitialized_no_io:
  "\<not> initialized d \<Longrightarrow>
     readRegister W d regAddr value mem b = (False, mem, b)
     \<and> readRegister_val W d regAddr uninit b = (0xFFFF, b)
     \<and> writeRegister W d regAddr v b = (False, b)
     \<and> readMultipleRegisters W d startAddr buffer count mem b = (0, mem, b)"
  by (simp add: readRegister_def readRegister_val_def writeRegister_def readMultipleRegisters_def)

text \<open>The driver as the constructor leaves it, on the fake transport.\<close>

theorem uninitialized_no_io_witness:
  "\<not> initialized fresh_driver
   \<and> readRegister (fake_wire []) fresh_driver 0x2F (Some 0) mem0 (fake_bus [0x23, 0x00]) =
       (False, mem0, fake_bus [0x23, 0x00])
   \<and> readRegister_val (fake_wire []) fresh_driver 0x2F 0 (fake_bus [0x23, 0x00]) =
       (0xFFFF, fake_bus [0x23, 0x00])
   \<and> writeRegister (fake_wire []) fresh_driver 0x2F 0x1770 (fake_bus [0x23, 0x00]) =
       (False, fake_bus [0x23, 0x00])
   \<and> readMultipleRegisters (fake_wire []) fresh_driver 0x20 (Some 0) 3 mem0 (fake_bus [0x23, 0x00]) =
       (0, mem0, fake_bus [0x23, 0x00])"
proof -
  have u: "\<not> initialized fresh_driver"
    by (simp add: fresh_driver_def BQ25723_new_def)
  from uninitialized_no_io [OF u, of "fake_wire []" "0x2F" "Some 0" mem0 "fake_bus [0x23, 0x00]"
      0 "0x1770" "0x20" "Some 0" 3] u
  show ?thesis
    by simp
qed

subsection \<open>Writing a register\<close>

text \<open>
  C2. On an initialized driver, \<open>writeRegister\<close> of value \<open>v\<close> to register \<open>regAddr\<close> adds
  to the trace exactly one transaction: it is addressed to the device, the bytes written
  are the register address, then \<open>v & 0xFF\<close>, then \<open>(v >> 8) & 0xFF\<close>, and it ends with a
  stop condition (\<open>endTransmission(true)\<close>). The call returns true exactly when the status of
  that \<open>endTransmission\<close> is 0. The two data bytes are the low and the high byte of \<open>v\<close>:
  combined as high * 256 + low they give \<open>v\<close> back.
\<close>

theorem writeRegister_bytes:
  "initialized d \<Longrightarrow> writeRegister W d regAddr v b = (ok, b') \<Longrightarrow>
     \<exists>e. trace b' = trace b @
            [BeginTransmission (address d), Write regAddr,
             Write (ucast (v AND 0xFF)), Write (ucast (drop_bit 8 v AND 0xFF)),
             EndTransmission True e]
         \<and> ok = (e = 0)
         \<and> combine (ucast (drop_bit 8 v AND 0xFF)) (ucast (v AND 0xFF)) = v"
  by (auto simp add: writeRegister_def Let_def wire_beginTransmission_def wire_write_def
      wire_endTransmission_def write_low_byte write_high_byte low_byte_mask high_byte_mask
      combine_bytes split: prod.splits)

text \<open>
  The scenario of the specification: writing 0x1770 to register 0x02 transmits the bytes
  0x02, 0x70, 0x17 in one transaction.
\<close>

theorem writeRegister_bytes_witness:
  "initialized ready_driver
   \<and> writeRegister (fake_wire []) ready_driver 0x02 0x1770 (fake_bus []) =
       (True, \<lparr>wire = \<lparr>fw_tx = [], fw_held = [0x70, 0x17], fw_rx = []\<rparr>,
               trace = [BeginTransmission 0x6B, Write 0x02, Write 0x70, Write 0x17,
                        EndTransmission True 0]\<rparr>)
   \<and> (\<exists>e. trace (snd (writeRegister (fake_wire []) ready_driver 0x02 0x1770 (fake_bus []))) =
          trace (fake_bus []) @
            [BeginTransmission (address ready_driver), Write 0x02,
             Write (ucast ((0x1770 :: uint16_t) AND 0xFF)),
             Write (ucast (drop_bit 8 (0x1770 :: uint16_t) AND 0xFF)),
             EndTransmission True e])"
proof -
  have r: "initialized ready_driver"
    by (simp add: ready_driver_def)
  have w: "writeRegister (fake_wire []) ready_driver 0x02 0x1770 (fake_bus []) =
       (True, \<lparr>wire = \<lparr>fw_tx = [], fw_held = [0x70, 0x17], fw_rx = []\<rparr>,
               trace = [BeginTransmission 0x6B, Write 0x02, Write 0x70, Write 0x17,
                        EndTransmission True 0]\<rparr>)"
    by (simp add: writeRegister_def Let_def wire_defs fake_defs)
  from writeRegister_bytes [OF r w] r w show ?thesis
    by auto
qed

subsection \<open>Reading a register\<close>

text \<open>
  C3. When the pointer form of \<open>readRegister\<close> returns true, the pointer is not null, the
  driver is initialized, and the call added to the trace the address phase (register
  address written, \<open>endTransmission(false)\<close> answering 0), one \<open>requestFrom\<close> of exactly 2
  bytes that returned 2, and two \<open>read\<close> calls. With \<open>x\<close> the first value read and \<open>y\<close> the
  second, each as a byte, the cell behind the pointer holds \<open>(y << 8) | x\<close>: the first byte
  received is the low byte. No other cell changes, and the convenience form returns that
  same value on the same bus.
\<close>

theorem readRegister_success:
  "readRegister W d regAddr value mem b = (True, mem', b') \<Longrightarrow>
     \<exists>p x y. value = Some p \<and> initialized d
       \<and> trace b' = trace b @
           [BeginTransmission (address d), Write regAddr, EndTransmission False 0,
            RequestFrom (address d) 2 2, Read x, Read y]
       \<and> mem' = mem(p := push_bit 8 (ucast (word_of_int y :: uint8_t)) OR ucast (word_of_int x :: uint8_t))
       \<and> readRegister_val W d regAddr uninit b =
           (push_bit 8 (ucast (word_of_int y :: uint8_t)) OR ucast (word_of_int x :: uint8_t), b')"
proof -
  assume a: "readRegister W d regAddr value mem b = (True, mem', b')"
  then obtain p where p: "value = Some p"
    by (cases "value") (auto simp add: readRegister_def)
  from a p obtain v where v: "single_read W d regAddr b = (Some v, b')" and m: "mem' = mem(p := v)"
    by (auto simp add: readRegister_single split: prod.splits option.splits)
  from single_read_cases [OF v] obtain x y where
    "initialized d" "v = combine (word_of_int y) (word_of_int x)"
    "trace b' = trace b @
           [BeginTransmission (address d), Write regAddr, EndTransmission False 0,
            RequestFrom (address d) 2 2, Read x, Read y]"
    by auto
  with p m v show ?thesis
    by (simp add: readRegister_val_single combine_eq)
qed

text \<open>
  The scenario of the specification: the transport returns the bytes 0x23, 0x00 for
  register 0x2F, and the read yields 0x0023.
\<close>

theorem readRegister_success_witness:
  "readRegister (fake_wire []) ready_driver 0x2F (Some 0) mem0 (fake_bus [0x23, 0x00]) =
     (True, mem0(0 := 0x0023),
      \<lparr>wire = \<lparr>fw_tx = [], fw_held = [0x23, 0x00], fw_rx = []\<rparr>,
       trace = [BeginTransmission 0x6B, Write 0x2F, EndTransmission False 0,
                RequestFrom 0x6B 2 2, Read 0x23, Read 0x00]\<rparr>)
   \<and> fst (readRegister_val (fake_wire []) ready_driver 0x2F 0 (fake_bus [0x23, 0x00])) = 0x0023"
proof -
  have r: "readRegister (fake_wire []) ready_driver 0x2F (Some 0) mem0 (fake_bus [0x23, 0x00]) =
     (True, mem0(0 := 0x0023),
      \<lparr>wire = \<lparr>fw_tx = [], fw_held = [0x23, 0x00], fw_rx = []\<rparr>,
       trace = [BeginTransmission 0x6B, Write 0x2F, EndTransmission False 0,
                RequestFrom 0x6B 2 2, Read 0x23, Read 0x00]\<rparr>)"
    by (simp add: readRegister_def Let_def wire_defs fake_defs combine_def)
  from readRegister_success [OF r, of 0] r show ?thesis
    by (auto simp add: fake_defs)
qed

subsection \<open>Byte order, end to end\<close>

text \<open>
  C4. On an initialized driver over the fake transport that echoes the data bytes it was
  last written, for every 16-bit value \<open>v\<close>, every register address and every state of the
  fake: \<open>writeRegister\<close> of \<open>v\<close> succeeds, and a following \<open>readRegister\<close> of the same register
  yields \<open>v\<close>, in the convenience form and through the pointer. The trace shows the low byte
  of \<open>v\<close> written before the high byte, and read before the high byte.
\<close>

theorem write_then_read:
  "initialized d \<Longrightarrow>
   writeRegister (fake_wire []) d regAddr v b = (ok, b1) \<Longrightarrow>
   readRegister_val (fake_wire []) d regAddr uninit b1 = (r, b2) \<Longrightarrow>
     ok \<and> r = v
     \<and> trace b2 = trace b @
         [BeginTransmission (address d), Write regAddr,
          Write (ucast v), Write (ucast (drop_bit 8 v)), EndTransmission True 0,
          BeginTransmission (address d), Write regAddr, EndTransmission False 0,
          RequestFrom (address d) 2 2,
          Read (uint (ucast v :: uint8_t)), Read (uint (ucast (drop_bit 8 v) :: uint8_t))]
     \<and> readRegister (fake_wire []) d regAddr (Some p) mem b1 = (True, mem(p := v), b2)"
  by (auto simp add: writeRegister_def readRegister_val_def readRegister_def Let_def wire_defs
      fake_wire_def write_low_byte write_high_byte low_byte_mask high_byte_mask combine_bytes
      split: prod.splits if_splits)

theorem write_then_read_witness:
  "initialized ready_driver
   \<and> writeRegister (fake_wire []) ready_driver 0x02 0x1770 (fake_bus []) =
       (True, \<lparr>wire = \<lparr>fw_tx = [], fw_held = [0x70, 0x17], fw_rx = []\<rparr>,
               trace = [BeginTransmission 0x6B, Write 0x02, Write 0x70, Write 0x17,
                        EndTransmission True 0]\<rparr>)
   \<and> readRegister_val (fake_wire []) ready_driver 0x02 0
         \<lparr>wire = \<lparr>fw_tx = [], fw_held = [0x70, 0x17], fw_rx = []\<rparr>,
          trace = [BeginTransmission 0x6B, Write 0x02, Write 0x70, Write 0x17,
                   EndTransmission True 0]\<rparr> =
       (0x1770, \<lparr>wire = \<lparr>fw_tx = [], fw_held = [0x70, 0x17], fw_rx = []\<rparr>,
                 trace = [BeginTransmission 0x6B, Write 0x02, Write 0x70, Write 0x17,
                          EndTransmission True 0,
                          BeginTransmission 0x6B, Write 0x02, EndTransmission False 0,
                          RequestFrom 0x6B 2 2, Read 0x70, Read 0x17]\<rparr>)"
proof -
  have i: "initialized ready_driver"
    by (simp add: ready_driver_def)
  obtain ok b1 where w: "writeRegister (fake_wire []) ready_driver 0x02 0x1770 (fake_bus []) = (ok, b1)"
    and b1: "b1 = \<lparr>wire = \<lparr>fw_tx = [], fw_held = [0x70, 0x17], fw_rx = []\<rparr>,
               trace = [BeginTransmission 0x6B, Write 0x02, Write 0x70, Write 0x17,
                        EndTransmission True 0]\<rparr>"
    by (simp add: writeRegister_def Let_def wire_defs fake_defs)
  obtain r b2 where r: "readRegister_val (fake_wire []) ready_driver 0x02 0 b1 = (r, b2)"
    and b2: "b2 = \<lparr>wire = \<lparr>fw_tx = [], fw_held = [0x70, 0x17], fw_rx = []\<rparr>,
                 trace = [BeginTransmission 0x6B, Write 0x02, Write 0x70, Write 0x17,
                          EndTransmission True 0,
                          BeginTransmission 0x6B, Write 0x02, EndTransmission False 0,
                          RequestFrom 0x6B 2 2, Read 0x70, Read 0x17]\<rparr>"
    unfolding b1 by (simp add: readRegister_val_def readRegister_def Let_def wire_defs fake_defs)
  from write_then_read [OF i w r] i w r b1 b2 show ?thesis
    by simp
qed

subsection \<open>The sentinel of the convenience read\<close>

text \<open>
  C5. On a transport that keeps its contract, the convenience form of \<open>readRegister\<close>
  ends in one of four ways, told apart by the driver's flag and the calls it added to the
  trace. It returns the sentinel 0xFFFF when the driver is uninitialized (no call at all),
  when the address phase fails (\<open>endTransmission(false)\<close> answers a status other than 0),
  and when fewer than 2 bytes are returned (\<open>requestFrom\<close> answers less than 2). Otherwise
  the two bytes of the register were received, \<open>lo\<close> first and \<open>hi\<close> second, and it returns
  \<open>(hi << 8) | lo\<close>; that value is the sentinel exactly when both bytes are 0xFF, that is,
  when the register holds 0xFFFF. So the sentinel comes back in the three failure cases
  and for a register that holds 0xFFFF, and never otherwise.
\<close>

theorem readRegister_val_sentinel:
  "wire_contract W \<Longrightarrow> readRegister_val W d regAddr uninit b = (r, b') \<Longrightarrow>
     (\<not> initialized d \<and> b' = b \<and> r = 0xFFFF)
     \<or> (initialized d \<and> (\<exists>e. e \<noteq> 0 \<and> r = 0xFFFF \<and> trace b' = trace b @
           [BeginTransmission (address d), Write regAddr, EndTransmission False e]))
     \<or> (initialized d \<and> (\<exists>n. n < 2 \<and> r = 0xFFFF \<and> trace b' = trace b @
           [BeginTransmission (address d), Write regAddr, EndTransmission False 0,
            RequestFrom (address d) 2 n]))
     \<or> (initialized d \<and> (\<exists>(lo :: uint8_t) (hi :: uint8_t). trace b' = trace b @
           [BeginTransmission (address d), Write regAddr, EndTransmission False 0,
            RequestFrom (address d) 2 2, Read (uint lo), Read (uint hi)]
          \<and> r = push_bit 8 (ucast hi) OR ucast lo
          \<and> (r = 0xFFFF \<longleftrightarrow> lo = 0xFF \<and> hi = 0xFF)))"
proof -
  assume c: "wire_contract W" and a: "readRegister_val W d regAddr uninit b = (r, b')"
  obtain s where s: "single_read W d regAddr b = (s, b')"
    and r: "r = (case s of None \<Rightarrow> 0xFFFF | Some v \<Rightarrow> v)"
    using a by (auto simp add: readRegister_val_single split: prod.splits option.splits)
  from single_read_contract [OF c s] consider
      (uninitialized) "\<not> initialized d" "b' = b" "s = None"
    | (address) e where "initialized d" "e \<noteq> 0" "s = None"
        "trace b' = trace b @
           [BeginTransmission (address d), Write regAddr, EndTransmission False e]"
    | (short) n where "initialized d" "n < 2" "s = None"
        "trace b' = trace b @
           [BeginTransmission (address d), Write regAddr, EndTransmission False 0,
            RequestFrom (address d) 2 n]"
    | (read) lo hi where "initialized d" "s = Some (combine hi lo)"
        "trace b' = trace b @
           [BeginTransmission (address d), Write regAddr, EndTransmission False 0,
            RequestFrom (address d) 2 2, Read (uint lo), Read (uint hi)]"
    by blast
  then show ?thesis
  proof cases
    case uninitialized
    then show ?thesis
      by (simp add: r)
  next
    case address
    then have "\<exists>e. e \<noteq> 0 \<and> r = 0xFFFF \<and> trace b' = trace b @
           [BeginTransmission (address d), Write regAddr, EndTransmission False e]"
      by (intro exI [of _ e]) (simp add: r)
    with address(1) show ?thesis
      by (intro disjI2 [of _ "\<not> initialized d \<and> b' = b \<and> r = 0xFFFF"] disjI1 conjI)
  next
    case short
    then have "\<exists>n. n < 2 \<and> r = 0xFFFF \<and> trace b' = trace b @
           [BeginTransmission (address d), Write regAddr, EndTransmission False 0,
            RequestFrom (address d) 2 n]"
      by (intro exI [of _ n]) (simp add: r)
    with short(1) show ?thesis
      by simp
  next
    case read
    then have "\<exists>(lo :: uint8_t) (hi :: uint8_t). trace b' = trace b @
           [BeginTransmission (address d), Write regAddr, EndTransmission False 0,
            RequestFrom (address d) 2 2, Read (uint lo), Read (uint hi)]
          \<and> r = push_bit 8 (ucast hi) OR ucast lo
          \<and> (r = 0xFFFF \<longleftrightarrow> lo = 0xFF \<and> hi = 0xFF)"
      by (intro exI [of _ lo] exI [of _ hi]) (simp add: r combine_sentinel combine_eq [symmetric])
    with read(1) show ?thesis
      by simp
  qed
qed

text \<open>
  On the fake transport, which keeps the contract: register 0x2F is not acknowledged, a
  device that has one byte only returns fewer than 2, and a register that holds 0xFFFF
  reads as 0xFFFF.
\<close>

theorem readRegister_val_sentinel_witness:
  "wire_contract (fake_wire [0x2F])
   \<and> initialized ready_driver
   \<and> readRegister_val (fake_wire [0x2F]) ready_driver 0x2F 0 (fake_bus [0x23, 0x00]) =
       (0xFFFF, \<lparr>wire = \<lparr>fw_tx = [], fw_held = [0x23, 0x00], fw_rx = []\<rparr>,
         trace = [BeginTransmission 0x6B, Write 0x2F, EndTransmission False 2]\<rparr>)
   \<and> readRegister_val (fake_wire [0x2F]) ready_driver 0x2E 0 (fake_bus [0x23]) =
       (0xFFFF, \<lparr>wire = \<lparr>fw_tx = [], fw_held = [0x23], fw_rx = [0x23]\<rparr>,
         trace = [BeginTransmission 0x6B, Write 0x2E, EndTransmission False 0,
                  RequestFrom 0x6B 2 1]\<rparr>)
   \<and> readRegister_val (fake_wire [0x2F]) ready_driver 0x2E 0 (fake_bus [0xFF, 0xFF]) =
       (0xFFFF, \<lparr>wire = \<lparr>fw_tx = [], fw_held = [0xFF, 0xFF], fw_rx = []\<rparr>,
         trace = [BeginTransmission 0x6B, Write 0x2E, EndTransmission False 0,
                  RequestFrom 0x6B 2 2, Read 0xFF, Read 0xFF]\<rparr>)
   \<and> (\<exists>e. e \<noteq> 0 \<and>
         trace (snd (readRegister_val (fake_wire [0x2F]) ready_driver 0x2F 0 (fake_bus [0x23, 0x00]))) =
         trace (fake_bus [0x23, 0x00]) @
           [BeginTransmission (address ready_driver), Write 0x2F, EndTransmission False e])"
proof -
  have c: "wire_contract (fake_wire [0x2F])"
    by (rule fake_wire_contract)
  have r1: "readRegister_val (fake_wire [0x2F]) ready_driver 0x2F 0 (fake_bus [0x23, 0x00]) =
     (0xFFFF, \<lparr>wire = \<lparr>fw_tx = [], fw_held = [0x23, 0x00], fw_rx = []\<rparr>,
       trace = [BeginTransmission 0x6B, Write 0x2F, EndTransmission False 2]\<rparr>)"
    by (simp add: readRegister_val_def readRegister_def Let_def wire_defs fake_defs)
  have r2: "readRegister_val (fake_wire [0x2F]) ready_driver 0x2E 0 (fake_bus [0x23]) =
       (0xFFFF, \<lparr>wire = \<lparr>fw_tx = [], fw_held = [0x23], fw_rx = [0x23]\<rparr>,
         trace = [BeginTransmission 0x6B, Write 0x2E, EndTransmission False 0,
                  RequestFrom 0x6B 2 1]\<rparr>)"
    by (simp add: readRegister_val_def readRegister_def Let_def wire_defs fake_defs)
  have r3: "readRegister_val (fake_wire [0x2F]) ready_driver 0x2E 0 (fake_bus [0xFF, 0xFF]) =
       (0xFFFF, \<lparr>wire = \<lparr>fw_tx = [], fw_held = [0xFF, 0xFF], fw_rx = []\<rparr>,
         trace = [BeginTransmission 0x6B, Write 0x2E, EndTransmission False 0,
                  RequestFrom 0x6B 2 2, Read 0xFF, Read 0xFF]\<rparr>)"
    by (simp add: readRegister_val_def readRegister_def Let_def wire_defs fake_defs combine_def)
  from readRegister_val_sentinel [OF c r1] c r1 r2 r3 show ?thesis
    by (auto simp add: fake_defs)
qed

subsection \<open>Bulk read\<close>

text \<open>
  C6. On an initialized driver and with a buffer that is not null,
  \<open>readMultipleRegisters\<close> does what \<open>count\<close> independent single-register reads do, one
  after the other, at the addresses \<open>startAddr\<close>, \<open>startAddr + 1\<close>, ... (as bytes): it leaves
  the bus they leave, so the read of a register is made whatever the read before it
  returned; slot \<open>k\<close> of the buffer holds the value read by read \<open>k\<close> when it succeeded and
  the sentinel 0xFFFF when it failed; memory outside the \<open>count\<close> slots is unchanged; and
  the count returned is the number of reads that succeeded. With a null buffer, for every
  driver, start address and count, it returns 0 and performs no read: bus and memory are
  returned as they were.
\<close>

theorem bulk_read_independent:
  "(initialized d
      \<and> readMultipleRegisters W d startAddr (Some buffer) count mem b = (n, mem', b')
      \<and> independent_reads W d startAddr [0..<unat count] b = (rs, b'') \<longrightarrow>
     b' = b'' \<and> length rs = unat count
     \<and> unat n = length (filter (\<lambda>r. r \<noteq> None) rs)
     \<and> (\<forall>k<unat count.
           mem' (buffer + k) = (case rs ! k of None \<Rightarrow> 0xFFFF | Some v \<Rightarrow> v))
     \<and> (\<forall>a. a < buffer \<or> buffer + unat count \<le> a \<longrightarrow> mem' a = mem a))
   \<and> readMultipleRegisters W d startAddr None count mem b = (0, mem, b)"
proof -
  have null: "readMultipleRegisters W d startAddr None count mem b = (0, mem, b)"
    by (simp add: readMultipleRegisters_def)
  have some: "b' = b'' \<and> length rs = unat count
     \<and> unat n = length (filter (\<lambda>r. r \<noteq> None) rs)
     \<and> (\<forall>k<unat count.
           mem' (buffer + k) = (case rs ! k of None \<Rightarrow> 0xFFFF | Some v \<Rightarrow> v))
     \<and> (\<forall>a. a < buffer \<or> buffer + unat count \<le> a \<longrightarrow> mem' a = mem a)"
    if i: "initialized d"
      and r: "readMultipleRegisters W d startAddr (Some buffer) count mem b = (n, mem', b')"
      and s: "independent_reads W d startAddr [0..<unat count] b = (rs, b'')"
  proof (cases "count = 0")
    case True
    with r s show ?thesis
      by (auto simp add: readMultipleRegisters_def)
  next
    case False
    from i r False
    have loop: "readMultipleRegisters_loop W d startAddr buffer count 0 0 mem b = (n, mem', b')"
      by (simp add: readMultipleRegisters_def)
    have m: "unat count - unat (0 :: uint8_t) = unat count"
      by simp
    have s0: "independent_reads W d startAddr [unat (0 :: uint8_t)..<unat count] b = (rs, b'')"
      using s by simp
    have "b' = b'' \<and> length rs = unat count - unat (0 :: uint8_t)
       \<and> unat n = unat (0 :: uint8_t) + length (filter (\<lambda>r. r \<noteq> None) rs)
       \<and> (\<forall>k. unat (0 :: uint8_t) \<le> k \<and> k < unat count \<longrightarrow>
             mem' (buffer + k) =
               (case rs ! (k - unat (0 :: uint8_t)) of None \<Rightarrow> 0xFFFF | Some v \<Rightarrow> v))
       \<and> (\<forall>a. a < buffer + unat (0 :: uint8_t) \<or> buffer + unat count \<le> a \<longrightarrow> mem' a = mem a)"
      by (rule loop_reads [OF m _ _ loop s0]) simp_all
    then show ?thesis
      by simp
  qed
  show ?thesis
  proof (rule conjI)
    show "readMultipleRegisters W d startAddr None count mem b = (0, mem, b)"
      by (rule null)
  next
    show "initialized d
      \<and> readMultipleRegisters W d startAddr (Some buffer) count mem b = (n, mem', b')
      \<and> independent_reads W d startAddr [0..<unat count] b = (rs, b'') \<longrightarrow>
     b' = b'' \<and> length rs = unat count
     \<and> unat n = length (filter (\<lambda>r. r \<noteq> None) rs)
     \<and> (\<forall>k<unat count.
           mem' (buffer + k) = (case rs ! k of None \<Rightarrow> 0xFFFF | Some v \<Rightarrow> v))
     \<and> (\<forall>a. a < buffer \<or> buffer + unat count \<le> a \<longrightarrow> mem' a = mem a)"
    proof (rule impI, elim conjE)
      assume "initialized d"
        and "readMultipleRegisters W d startAddr (Some buffer) count mem b = (n, mem', b')"
        and "independent_reads W d startAddr [0..<unat count] b = (rs, b'')"
      then show "b' = b'' \<and> length rs = unat count
         \<and> unat n = length (filter (\<lambda>r. r \<noteq> None) rs)
         \<and> (\<forall>k<unat count.
               mem' (buffer + k) = (case rs ! k of None \<Rightarrow> 0xFFFF | Some v \<Rightarrow> v))
         \<and> (\<forall>a. a < buffer \<or> buffer + unat count \<le> a \<longrightarrow> mem' a = mem a)"
        by (rule some)
    qed
  qed
qed

text \<open>
  Three registers from 0x20 on a transport that does not acknowledge register 0x21: two
  reads succeed, the slot of the failed read holds the sentinel, the read after the failed
  one is made. The same call with a null buffer returns 0 and leaves the bus alone.
\<close>

theorem bulk_read_independent_witness:
  "initialized ready_driver
   \<and> readMultipleRegisters (fake_wire [0x21]) ready_driver 0x20 (Some 5) 3 mem0
         (fake_bus [0x34, 0x12]) =
       (2, mem0(5 := 0x1234, 6 := 0xFFFF, 7 := 0x1234),
        \<lparr>wire = \<lparr>fw_tx = [], fw_held = [0x34, 0x12], fw_rx = []\<rparr>,
         trace = [BeginTransmission 0x6B, Write 0x20, EndTransmission False 0,
                  RequestFrom 0x6B 2 2, Read 0x34, Read 0x12,
                  BeginTransmission 0x6B, Write 0x21, EndTransmission False 2,
                  BeginTransmission 0x6B, Write 0x22, EndTransmission False 0,
                  RequestFrom 0x6B 2 2, Read 0x34, Read 0x12]\<rparr>)
   \<and> fst (independent_reads (fake_wire [0x21]) ready_driver 0x20 [0..<unat (3 :: uint8_t)]
          (fake_bus [0x34, 0x12])) = [Some 0x1234, None, Some 0x1234]
   \<and> snd (independent_reads (fake_wire [0x21]) ready_driver 0x20 [0..<unat (3 :: uint8_t)]
          (fake_bus [0x34, 0x12])) =
       snd (snd (readMultipleRegisters (fake_wire [0x21]) ready_driver 0x20 (Some 5) 3 mem0
         (fake_bus [0x34, 0x12])))
   \<and> readMultipleRegisters (fake_wire [0x21]) ready_driver 0x20 None 3 mem0
         (fake_bus [0x34, 0x12]) = (0, mem0, fake_bus [0x34, 0x12])"
proof -
  have i: "initialized ready_driver"
    by (simp add: ready_driver_def)
  have r: "readMultipleRegisters (fake_wire [0x21]) ready_driver 0x20 (Some 5) 3 mem0
         (fake_bus [0x34, 0x12]) =
       (2, mem0(5 := 0x1234, 6 := 0xFFFF, 7 := 0x1234),
        \<lparr>wire = \<lparr>fw_tx = [], fw_held = [0x34, 0x12], fw_rx = []\<rparr>,
         trace = [BeginTransmission 0x6B, Write 0x20, EndTransmission False 0,
                  RequestFrom 0x6B 2 2, Read 0x34, Read 0x12,
                  BeginTransmission 0x6B, Write 0x21, EndTransmission False 2,
                  BeginTransmission 0x6B, Write 0x22, EndTransmission False 0,
                  RequestFrom 0x6B 2 2, Read 0x34, Read 0x12]\<rparr>)"
    by (simp add: readMultipleRegisters_def readMultipleRegisters_loop.simps readRegister_def
        Let_def wire_defs fake_defs combine_def)
  have u: "[0..<unat (3 :: uint8_t)] = [0, 1, 2]"
    by (simp add: upt_rec)
  obtain rs b'' where s: "independent_reads (fake_wire [0x21]) ready_driver 0x20
      [0..<unat (3 :: uint8_t)] (fake_bus [0x34, 0x12]) = (rs, b'')"
    and rs: "rs = [Some 0x1234, None, Some 0x1234]"
    unfolding u
    by (simp add: single_read_def readRegister_def Let_def wire_defs fake_defs combine_def)
  note t = bulk_read_independent [of ready_driver "fake_wire [0x21]" "0x20" 5 3 mem0
      "fake_bus [0x34, 0x12]" _ _ _ rs b'']
  from t [THEN conjunct1, THEN mp, OF conjI [OF i conjI [OF r s]]] t [THEN conjunct2] i r s rs
  show ?thesis
    by simp
qed

text \<open>
  Without the restriction to a buffer that is not null the first part fails: with a null
  buffer and count 1 the bulk read returns 0 and makes no read, although the one read asked
  for would succeed.
\<close>

theorem bulk_read_null_buffer_counterexample:
  "initialized ready_driver
   \<and> readMultipleRegisters (fake_wire []) ready_driver 0x20 None 1 mem0 (fake_bus [0x34, 0x12]) =
       (0, mem0, fake_bus [0x34, 0x12])
   \<and> fst (independent_reads (fake_wire []) ready_driver 0x20 [0..<unat (1 :: uint8_t)]
          (fake_bus [0x34, 0x12])) = [Some 0x1234]
   \<and> snd (independent_reads (fake_wire []) ready_driver 0x20 [0..<unat (1 :: uint8_t)]
          (fake_bus [0x34, 0x12])) \<noteq> fake_bus [0x34, 0x12]"
  by (simp add: readMultipleRegisters_def single_read_def readRegister_def
      Let_def wire_defs fake_defs combine_def)

subsection \<open>Changing the address\<close>

text \<open>
  C7. For every driver and every new address, \<open>setAddress\<close> stores the new address and
  clears the initialized flag, also when the new address is the one already stored: the
  driver is uninitialized afterwards and \<open>getAddress\<close> returns the new address. The clock
  speed is kept.
\<close>

theorem setAddress_invalidates:
  "getAddress (setAddress newAddr d) = newAddr
   \<and> isInitialized (setAddress newAddr d) = False
   \<and> isInitialized (setAddress (getAddress d) d) = False
   \<and> i2cSpeed (setAddress newAddr d) = i2cSpeed d"
  by (simp add: setAddress_def getAddress_def isInitialized_def)

subsection \<open>Register names\<close>

lemma name_in_catalog:
  "regAddr \<in> set register_catalog \<Longrightarrow>
     getRegisterName regAddr \<noteq> [] \<and> getRegisterName regAddr \<noteq> ''UNKNOWN''
     \<and> map_of register_macros regAddr = Some (getRegisterName regAddr)"
  unfolding register_catalog_def set_simps insert_iff empty_iff
  by (elim disjE FalseE) (simp_all add: getRegisterName_def register_macros_def BQ25723_REG_defs)

lemma name_outside_catalog:
  "regAddr \<notin> set register_catalog \<Longrightarrow> getRegisterName regAddr = ''UNKNOWN''"
  by (simp add: register_catalog_def getRegisterName_def BQ25723_REG_defs)

lemma catalog_macros:
  "map fst register_macros = register_catalog \<and> length register_catalog = 25
   \<and> distinct register_catalog"
  by (simp add: register_catalog_def register_macros_def BQ25723_REG_defs)

text \<open>
  C8. \<open>getRegisterName\<close> is a total function of the address byte. For every address of
  the documented catalog it returns a name that is not empty and is not the token
  \<open>UNKNOWN\<close>: the name the register's macro carries. For every other address it returns
  \<open>UNKNOWN\<close>. The addresses of the macros are the 25 distinct addresses of the catalog. At
  the boundaries: 0x00 is the register \<open>CHARGE_OPTION_0\<close>, 0xFF is unknown.
\<close>

theorem getRegisterName_total:
  "(regAddr \<in> set register_catalog \<longrightarrow>
      getRegisterName regAddr \<noteq> [] \<and> getRegisterName regAddr \<noteq> ''UNKNOWN''
      \<and> map_of register_macros regAddr = Some (getRegisterName regAddr))
   \<and> (regAddr \<notin> set register_catalog \<longrightarrow> getRegisterName regAddr = ''UNKNOWN'')
   \<and> map fst register_macros = register_catalog
   \<and> length register_catalog = 25
   \<and> distinct register_catalog
   \<and> getRegisterName 0x00 = ''CHARGE_OPTION_0''
   \<and> getRegisterName 0xFF = ''UNKNOWN''"
proof -
  have "getRegisterName 0x00 = ''CHARGE_OPTION_0''"
    by (simp add: getRegisterName_def BQ25723_REG_defs)
  moreover have "getRegisterName 0xFF = ''UNKNOWN''"
    by (simp add: getRegisterName_def BQ25723_REG_defs)
  ultimately show ?thesis
    using name_in_catalog [of regAddr] name_outside_catalog [of regAddr] catalog_macros
    by blast
qed

theorem getRegisterName_total_witness:
  "(0x2F :: uint8_t) \<in> set register_catalog \<and> getRegisterName 0x2F = ''DEVICE_ID''
   \<and> (0x01 :: uint8_t) \<notin> set register_catalog \<and> getRegisterName 0x01 = ''UNKNOWN''
   \<and> (0xFF :: uint8_t) \<notin> set register_catalog \<and> getRegisterName 0xFF = ''UNKNOWN''"
proof -
  have a: "(0x2F :: uint8_t) \<in> set register_catalog"
    by (simp add: register_catalog_def)
  have b: "(0x01 :: uint8_t) \<notin> set register_catalog"
    by (simp add: register_catalog_def)
  have c: "(0xFF :: uint8_t) \<notin> set register_catalog"
    by (simp add: register_catalog_def)
  have m: "map_of register_macros (0x2F :: uint8_t) = Some ''DEVICE_ID''"
    by (simp add: register_macros_def BQ25723_REG_defs)
  from getRegisterName_total [of "0x2F"] getRegisterName_total [of "0x01"]
    getRegisterName_total [of "0xFF"] a b c m
  show ?thesis
    by simp
qed

subsection \<open>The null pointer and the out-parameter\<close>

text \<open>
  C9. In every state of the driver, initialized or not, the pointer form of
  \<open>readRegister\<close> called with a null pointer returns false and leaves the bus and the
  memory as they were: the guard comes before any bus transaction and before any access
  through the pointer.
\<close>

theorem readRegister_null:
  "readRegister W d regAddr None mem b = (False, mem, b)"
  by (simp add: readRegister_def)

theorem readRegister_null_witness:
  "readRegister (fake_wire []) ready_driver 0x2F None mem0 (fake_bus [0x23, 0x00]) =
     (False, mem0, fake_bus [0x23, 0x00])"
  by (rule readRegister_null)

text \<open>
  C10. Whenever the pointer form of \<open>readRegister\<close> returns false, for whatever reason,
  the memory is what it was before the call: the out-parameter is written on the success
  path only.
\<close>

theorem readRegister_false_mem:
  "readRegister W d regAddr value mem b = (False, mem', b') \<Longrightarrow> mem' = mem"
  by (auto simp add: readRegister_def Let_def split: if_splits prod.splits)

text \<open>A read that fails in the address phase, after bus traffic, leaves the memory alone.\<close>

theorem readRegister_false_mem_witness:
  "readRegister (fake_wire [0x2F]) ready_driver 0x2F (Some 0) mem0 (fake_bus [0x23, 0x00]) =
     (False, mem0, \<lparr>wire = \<lparr>fw_tx = [], fw_held = [0x23, 0x00], fw_rx = []\<rparr>,
       trace = [BeginTransmission 0x6B, Write 0x2F, EndTransmission False 2]\<rparr>)"
proof -
  obtain m b' where r: "readRegister (fake_wire [0x2F]) ready_driver 0x2F (Some 0) mem0
      (fake_bus [0x23, 0x00]) = (False, m, b')"
    and b': "b' = \<lparr>wire = \<lparr>fw_tx = [], fw_held = [0x23, 0x00], fw_rx = []\<rparr>,
       trace = [BeginTransmission 0x6B, Write 0x2F, EndTransmission False 2]\<rparr>"
    by (simp add: readRegister_def Let_def wire_defs fake_defs)
  from readRegister_false_mem [OF r] r b' show ?thesis
    by simp
qed

end
